theory Spec2Isabelle
  imports Main
begin

section \<open>repo2docker/buildpacks/conda/freeze.py\<close>

text \<open>
  A shallow embedding of the script that regenerates the per-version conda environment
  files and freezes them with conda-lock. The script is sequential file handling, so the
  model is explicit state passing over a \<open>world\<close>: the files (path text to contents),
  the trace of what the script printed, ran and copied, and the number of clock readings.

  What belongs to the machine the script runs on is a field of \<open>host\<close>: the directory
  \<open>HERE\<close> of the script, the conda-lock executable, ruamel's loader and dumper, the
  clock. Every theorem holds for every host.

  The model follows Python's text of each operation that is a function of its arguments
  (\<open>in\<close>, \<open>readline\<close>, \<open>str.split\<close>, \<open>str.format\<close>, the pathlib operations,
  \<open>os.path.splitext\<close>). Failures of the operating system (permissions, encodings,
  directories in the place of files) are not modelled: a path names a text file or nothing.
\<close>

subsection \<open>Errors\<close>

text \<open>
  The exceptions the script can end with. \<open>LoadError\<close> is ruamel refusing the
  environment file. \<open>FormatError\<close> is a \<open>str.format\<close> template with a brace that is
  neither doubled nor the plain field.
\<close>

datatype error =
    ValueError
  | KeyError
  | TypeError
  | AttributeError
  | IndexError
  | FileNotFoundError
  | SameFileError
  | CalledProcessError int
  | LoadError
  | FormatError

subsection \<open>Strings\<close>

text \<open>\<open>text.startswith(pre)\<close>.\<close>

fun startswith :: "string \<Rightarrow> string \<Rightarrow> bool" where
  "startswith cs [] = True"
| "startswith [] (p # ps) = False"
| "startswith (c # cs) (p # ps) = (c = p \<and> startswith cs ps)"

text \<open>\<open>sub in text\<close>: \<open>sub\<close> occurs in \<open>text\<close> as a contiguous run.\<close>

fun py_in :: "string \<Rightarrow> string \<Rightarrow> bool" where
  "py_in sub [] = (sub = [])"
| "py_in sub (c # cs) = (startswith (c # cs) sub \<or> py_in sub cs)"

text \<open>
  \<open>f.readline()\<close> on a file opened in text mode, read from its start: the characters up
  to the first line end, and the line end as one line feed. Text mode has universal
  newlines, so a carriage return ends the line as well.
\<close>

fun readline :: "string \<Rightarrow> string" where
  "readline [] = []"
| "readline (c # cs) =
     (if c = CHR 0x0A \<or> c = CHR 0x0D then [CHR 0x0A] else c # readline cs)"

text \<open>
  \<open>f.read()\<close> on a file opened in text mode: the whole text, with every line end
  (carriage return and line feed, or a carriage return alone) read as one line feed.
  Writing in text mode leaves a line feed as it is on POSIX.
\<close>

fun read_text :: "string \<Rightarrow> string" where
  "read_text [] = []"
| "read_text [c] = [if c = CHR 0x0D then CHR 0x0A else c]"
| "read_text (c # d # cs) =
     (if c = CHR 0x0D then
        (if d = CHR 0x0A then CHR 0x0A # read_text cs else CHR 0x0A # read_text (d # cs))
      else c # read_text (d # cs))"

text \<open>\<open>s.split(sep)\<close> for a separator of one character; the result is never empty.\<close>

fun py_split :: "char \<Rightarrow> string \<Rightarrow> string list" where
  "py_split sep [] = [[]]"
| "py_split sep (c # cs) =
     (if c = sep then [] # py_split sep cs
      else (case py_split sep cs of
              [] \<Rightarrow> [[c]]
            | x # xs \<Rightarrow> (c # x) # xs))"

text \<open>\<open>sep.join(xs)\<close>.\<close>

fun py_join :: "string \<Rightarrow> string list \<Rightarrow> string" where
  "py_join sep [] = []"
| "py_join sep [x] = x"
| "py_join sep (x # y # ys) = x @ sep @ py_join sep (y # ys)"

text \<open>
  \<open>template.format(name=value)\<close> for the templates of the script, which have one field.
  A doubled brace is a brace, \<open>{name}\<close> is the value, a closing brace alone is Python's
  ValueError. Any other use of an opening brace (another field, a conversion, a format
  specification, an unclosed field) ends in \<open>FormatError\<close>.
\<close>

fun str_format :: "string \<Rightarrow> string \<Rightarrow> string \<Rightarrow> error + string" where
  "str_format name val [] = Inr []"
| "str_format name val (c # cs) =
     (if c = CHR ''{'' then
        (if startswith cs ''{'' then
           (case str_format name val (drop 1 cs) of
              Inl e \<Rightarrow> Inl e
            | Inr out \<Rightarrow> Inr (CHR ''{'' # out))
         else if startswith cs (name @ ''}'') then
           (case str_format name val (drop (length name + 1) cs) of
              Inl e \<Rightarrow> Inl e
            | Inr out \<Rightarrow> Inr (val @ out))
         else Inl FormatError)
      else if c = CHR ''}'' then
        (if startswith cs ''}'' then
           (case str_format name val (drop 1 cs) of
              Inl e \<Rightarrow> Inl e
            | Inr out \<Rightarrow> Inr (CHR ''}'' # out))
         else Inl ValueError)
      else
        (case str_format name val cs of
           Inl e \<Rightarrow> Inl e
         | Inr out \<Rightarrow> Inr (c # out)))"

text \<open>
  \<open>os.path.splitext(p)[0]\<close>: the path without the extension of its last component. The
  extension starts at the last dot of that component; dots that lead the component do
  not count.
\<close>

definition splitext_root :: "string \<Rightarrow> string" where
  "splitext_root p =
     (let base = rev (takeWhile (\<lambda>c. c \<noteq> CHR ''/'') (rev p));
          dir = take (length p - length base) p;
          dots = takeWhile (\<lambda>c. c = CHR ''.'') base;
          rest = dropWhile (\<lambda>c. c = CHR ''.'') base
      in if CHR ''.'' \<in> set rest
         then dir @ dots @ rev (tl (dropWhile (\<lambda>c. c \<noteq> CHR ''.'') (rev rest)))
         else p)"

subsection \<open>Paths\<close>

text \<open>
  A pathlib path on POSIX: the anchor (empty for a relative path, one slash, or two) and
  the names below it.
\<close>

record path =
  anchor :: string
  names :: "string list"

text \<open>\<open>pathlib.Path(s)\<close>: empty names and single dots are dropped.\<close>

definition Path :: "string \<Rightarrow> path" where
  "Path s =
     \<lparr> anchor = (if startswith s ''//'' \<and> \<not> startswith s ''///'' then ''//''
                 else if startswith s ''/'' then ''/''
                 else ''''),
       names = filter (\<lambda>n. n \<noteq> '''' \<and> n \<noteq> ''.'') (py_split CHR ''/'' s) \<rparr>"

text \<open>\<open>str(p)\<close>.\<close>

definition str_path :: "path \<Rightarrow> string" where
  "str_path p =
     (if names p = [] then (if anchor p = '''' then ''.'' else anchor p)
      else anchor p @ py_join ''/'' (names p))"

text \<open>\<open>p / q\<close>: an anchored \<open>q\<close> replaces \<open>p\<close>.\<close>

definition joinpath :: "path \<Rightarrow> path \<Rightarrow> path" where
  "joinpath p q =
     (if anchor q \<noteq> '''' then q
      else \<lparr> anchor = anchor p, names = names p @ names q \<rparr>)"

text \<open>\<open>p.relative_to(base)\<close>: ValueError unless \<open>p\<close> lies at or below \<open>base\<close>.\<close>

definition relative_to :: "path \<Rightarrow> path \<Rightarrow> error + path" where
  "relative_to p base =
     (if anchor p = anchor base \<and> take (length (names base)) (names p) = names base
      then Inr \<lparr> anchor = '''', names = drop (length (names base)) (names p) \<rparr>
      else Inl ValueError)"

subsection \<open>YAML documents\<close>

text \<open>
  What ruamel's round-trip loader returns: strings, integers, null, sequences and
  mappings in the order of the file. Nodes are values: a document that reaches one
  sequence under two keys through an alias is outside the model.
\<close>

datatype yaml =
    YStr string
  | YInt int
  | YNull
  | YSeq "yaml list"
  | YMap "(yaml \<times> yaml) list"

text \<open>\<open>d[k] = v\<close> on a mapping: the value of a key that is there, a new last key otherwise.\<close>

fun setitem_map :: "yaml \<Rightarrow> yaml \<Rightarrow> (yaml \<times> yaml) list \<Rightarrow> (yaml \<times> yaml) list" where
  "setitem_map k v [] = [(k, v)]"
| "setitem_map k v ((k', v') # kvs) =
     (if k' = k then (k, v) # kvs else (k', v') # setitem_map k v kvs)"

text \<open>\<open>env["dependencies"]\<close>: only a mapping can be indexed by a string.\<close>

definition getitem_dependencies :: "yaml \<Rightarrow> error + yaml" where
  "getitem_dependencies env =
     (case env of
        YMap kvs \<Rightarrow>
          (case map_of kvs (YStr ''dependencies'') of
             None \<Rightarrow> Inl KeyError
           | Some d \<Rightarrow> Inr d)
      | _ \<Rightarrow> Inl TypeError)"

text \<open>
  What \<open>enumerate(deps)\<close> walks through: the items of a sequence, the keys of a mapping,
  the characters of a string; nothing else can be iterated.
\<close>

definition py_iter :: "yaml \<Rightarrow> error + yaml list" where
  "py_iter d =
     (case d of
        YSeq xs \<Rightarrow> Inr xs
      | YMap kvs \<Rightarrow> Inr (map fst kvs)
      | YStr s \<Rightarrow> Inr (map (\<lambda>c. YStr [c]) s)
      | _ \<Rightarrow> Inl TypeError)"

text \<open>
  The loop of \<open>set_python\<close> (lines 94 to 99), from index \<open>idx\<close> on: the index of the first
  entry with \<open>dep.split("=")[0] == "python"\<close>. Only a string has \<open>split\<close>. The \<open>else\<close> of
  the loop, reached when the entries run out, raises ValueError.
\<close>

fun find_python :: "nat \<Rightarrow> yaml list \<Rightarrow> error + nat" where
  "find_python idx [] = Inl ValueError"
| "find_python idx (dep # rest) =
     (case dep of
        YStr s \<Rightarrow>
          (case py_split CHR ''='' s of
             [] \<Rightarrow> Inl IndexError
           | key # _ \<Rightarrow> if key = ''python'' then Inr idx else find_python (Suc idx) rest)
      | _ \<Rightarrow> Inl AttributeError)"

text \<open>\<open>deps[idx] = v\<close>: a sequence is updated in place, a mapping gets the key \<open>idx\<close>.\<close>

definition setitem_index :: "yaml \<Rightarrow> nat \<Rightarrow> yaml \<Rightarrow> error + yaml" where
  "setitem_index d idx v =
     (case d of
        YSeq xs \<Rightarrow> if idx < length xs then Inr (YSeq (xs[idx := v])) else Inl IndexError
      | YMap kvs \<Rightarrow> Inr (YMap (setitem_map (YInt (int idx)) v kvs))
      | _ \<Rightarrow> Inl TypeError)"

text \<open>
  Lines 94 to 99 on the loaded document: the search, and the assignment
  \<open>env["dependencies"][idx] = f"python={py}.*"\<close>, which changes the object that
  \<open>env\<close> holds under that key.
\<close>

definition replace_python :: "yaml \<Rightarrow> string \<Rightarrow> error + yaml" where
  "replace_python env py =
     (case getitem_dependencies env of
        Inl e \<Rightarrow> Inl e
      | Inr d \<Rightarrow>
          (case py_iter d of
             Inl e \<Rightarrow> Inl e
           | Inr items \<Rightarrow>
               (case find_python 0 items of
                  Inl e \<Rightarrow> Inl e
                | Inr idx \<Rightarrow>
                    (case setitem_index d idx (YStr (''python='' @ py @ ''.*'')) of
                       Inl e \<Rightarrow> Inl e
                     | Inr d' \<Rightarrow>
                         (case env of
                            YMap kvs \<Rightarrow> Inr (YMap (setitem_map (YStr ''dependencies'') d' kvs))
                          | _ \<Rightarrow> Inl TypeError)))))"

subsection \<open>The host and the world\<close>

type_synonym files = "string \<rightharpoonup> string"

text \<open>
  \<open>conda_lock argv fs\<close> is the exit status of the tool and the files it leaves.
  \<open>yaml_load src\<close> is what \<open>yaml.load\<close> returns on the open file that holds
  \<open>src\<close>, the reading included, and \<open>None\<close> where ruamel raises; \<open>yaml_dump\<close> is
  total, as ruamel dumps what it loaded. \<open>utcnow n\<close> is the text \<open>%Y-%m-%d %H:%M:%S UTC\<close> of
  the clock at its \<open>n\<close>-th reading.
\<close>

record host =
  HERE :: path
  conda_lock :: "string list \<Rightarrow> files \<Rightarrow> int \<times> files"
  yaml_load :: "string \<Rightarrow> yaml option"
  yaml_dump :: "yaml \<Rightarrow> string"
  utcnow :: "nat \<Rightarrow> string"

datatype event =
    Printed string
  | Called "string list"
  | Copy string string

record world =
  files :: files
  trace :: "event list"
  readings :: nat

definition emit :: "event \<Rightarrow> world \<Rightarrow> world" where
  "emit e w = w\<lparr>trace := trace w @ [e]\<rparr>"

definition write_file :: "string \<Rightarrow> string \<Rightarrow> world \<Rightarrow> world" where
  "write_file name text w = w\<lparr>files := (files w)(name \<mapsto> text)\<rparr>"

definition remove_file :: "string \<Rightarrow> world \<Rightarrow> world" where
  "remove_file name w = w\<lparr>files := (files w)(name := None)\<rparr>"

definition read_clock :: "host \<Rightarrow> world \<Rightarrow> string \<times> world" where
  "read_clock h w = (utcnow h (readings w), w\<lparr>readings := Suc (readings w)\<rparr>)"

text \<open>The module constants (lines 24 to 27).\<close>

definition ENV_FILE :: "host \<Rightarrow> path" where
  "ENV_FILE h = joinpath (HERE h) (Path ''environment.yml'')"

definition FROZEN_FILE_T :: "host \<Rightarrow> string" where
  "FROZEN_FILE_T h = splitext_root (str_path (ENV_FILE h)) @ ''-{platform}.lock''"

definition ENV_FILE_T :: "host \<Rightarrow> path" where
  "ENV_FILE_T h = joinpath (HERE h) (Path ''environment.py-{py}.yml'')"

text \<open>
  The guard both procedures start with (lines 43 to 46 and 84 to 88): the target exists
  and its first line does not hold the marker.
\<close>

definition not_autogenerated :: "world \<Rightarrow> string \<Rightarrow> bool" where
  "not_autogenerated w name =
     (case files w name of
        None \<Rightarrow> False
      | Some text \<Rightarrow> \<not> py_in ''GENERATED'' (readline text))"

subsection \<open>set_python\<close>

text \<open>
  Lines 91 to 106: the environment file is loaded, the python entry replaced, and the
  target opened for writing, which empties it before the first line is built.
\<close>

definition set_python_regenerate ::
  "host \<Rightarrow> path \<Rightarrow> string \<Rightarrow> world \<Rightarrow> (error + unit) \<times> world" where
  "set_python_regenerate h py_env_file py w =
     (let w1 = emit (Printed (''Regenerating '' @ str_path py_env_file @ '' from ''
                               @ str_path (ENV_FILE h))) w
      in case files w1 (str_path (ENV_FILE h)) of
           None \<Rightarrow> (Inl FileNotFoundError, w1)
         | Some src \<Rightarrow>
             (case yaml_load h src of
                None \<Rightarrow> (Inl LoadError, w1)
              | Some env \<Rightarrow>
                  (case replace_python env py of
                     Inl e \<Rightarrow> (Inl e, w1)
                   | Inr env' \<Rightarrow>
                       (let w2 = write_file (str_path py_env_file) [] w1
                        in case relative_to (ENV_FILE h) (HERE h) of
                             Inl e \<Rightarrow> (Inl e, w2)
                           | Inr rel \<Rightarrow>
                               (let line1 = ''# AUTO GENERATED FROM '' @ str_path rel
                                            @ '', DO NOT MANUALLY MODIFY'' @ [CHR 0x0A];
                                    (now, w3) = read_clock h w2;
                                    line2 = ''# Generated on '' @ now @ [CHR 0x0A]
                                in (Inr (),
                                    write_file (str_path py_env_file)
                                      (line1 @ line2 @ yaml_dump h env') w3))))))"

definition set_python :: "host \<Rightarrow> path \<Rightarrow> string \<Rightarrow> world \<Rightarrow> (error + unit) \<times> world" where
  "set_python h py_env_file py w =
     (if not_autogenerated w (str_path py_env_file) then (Inr (), w)
      else set_python_regenerate h py_env_file py w)"

subsection \<open>freeze\<close>

text \<open>Lines 55 and 56.\<close>

definition frozen_tempfile :: "path \<Rightarrow> string \<Rightarrow> error + path" where
  "frozen_tempfile frozen_dest platform =
     (case str_format ''platform'' platform (str_path frozen_dest @ ''.{platform}'') of
        Inl e \<Rightarrow> Inl e
      | Inr t \<Rightarrow> Inr (Path t))"

text \<open>The command line of lines 59 to 68.\<close>

definition conda_lock_argv :: "path \<Rightarrow> path \<Rightarrow> string \<Rightarrow> string list" where
  "conda_lock_argv env_file frozen_dest platform =
     [''conda-lock'', ''--mamba'', ''--kind=explicit'',
      ''--platform='' @ platform,
      ''--filename-template='' @ str_path frozen_dest @ ''.{platform}'',
      ''--file='' @ str_path env_file]"

text \<open>\<open>subprocess.check_call\<close>: a status other than zero is CalledProcessError.\<close>

definition check_call :: "host \<Rightarrow> string list \<Rightarrow> world \<Rightarrow> (error + unit) \<times> world" where
  "check_call h argv w =
     (let (status, fs) = conda_lock h argv (files w);
          w' = emit (Called argv) (w\<lparr>files := fs\<rparr>)
      in (if status = 0 then Inr () else Inl (CalledProcessError status), w'))"

text \<open>
  Lines 51 to 79. Opening \<open>frozen_dest\<close> for writing empties it; what is written
  reaches the file when the \<open>with\<close> block is left, also when it is left by an exception.
  The temporary file is read, in text mode, while the two header lines are still in the
  writer's buffer.
\<close>

definition freeze_run ::
  "host \<Rightarrow> path \<Rightarrow> path \<Rightarrow> string \<Rightarrow> world \<Rightarrow> (error + unit) \<times> world" where
  "freeze_run h env_file frozen_file platform w =
     (let frozen_dest = joinpath (HERE h) frozen_file;
          w1 = emit (Printed (''Freezing '' @ str_path env_file @ '' -> ''
                               @ str_path frozen_file)) w
      in case frozen_tempfile frozen_dest platform of
           Inl e \<Rightarrow> (Inl e, w1)
         | Inr tmp \<Rightarrow>
             (case check_call h (conda_lock_argv env_file frozen_dest platform) w1 of
                (Inl e, w2) \<Rightarrow> (Inl e, w2)
              | (Inr u, w2) \<Rightarrow>
                  (let w3 = write_file (str_path frozen_dest) [] w2
                   in case relative_to env_file (HERE h) of
                        Inl e \<Rightarrow> (Inl e, w3)
                      | Inr rel \<Rightarrow>
                          (let line1 = ''# AUTO GENERATED FROM '' @ str_path rel
                                       @ '', DO NOT MANUALLY MODIFY'' @ [CHR 0x0A];
                               (now, w4) = read_clock h w3;
                               line2 = ''# Frozen on '' @ now @ [CHR 0x0A]
                           in case files w4 (str_path tmp) of
                                None \<Rightarrow>
                                  (Inl FileNotFoundError,
                                   write_file (str_path frozen_dest) (line1 @ line2) w4)
                              | Some body \<Rightarrow>
                                  (Inr (),
                                   remove_file (str_path tmp)
                                     (write_file (str_path frozen_dest)
                                        (line1 @ line2 @ read_text body) w4))))))"

definition freeze ::
  "host \<Rightarrow> path \<Rightarrow> path \<Rightarrow> string \<Rightarrow> world \<Rightarrow> (error + unit) \<times> world" where
  "freeze h env_file frozen_file platform w =
     (let frozen_dest = joinpath (HERE h) frozen_file
      in if not_autogenerated w (str_path frozen_dest) then
           (case relative_to frozen_file (HERE h) of
              Inl e \<Rightarrow> (Inl e, w)
            | Inr rel \<Rightarrow>
                (Inr (),
                 emit (Printed (str_path rel @ '' not autogenerated, not refreezing'')) w))
         else freeze_run h env_file frozen_file platform w)"

subsection \<open>The command line and the main loop\<close>

record namespace =
  ns_py :: "string list"
  ns_platform :: "string list"

text \<open>
  \<open>parser.parse_args()\<close> on the positional strings of the command line (lines 110 to
  128). argparse matches the positionals from left to right, and a positional with
  \<open>nargs="*"\<close> takes every string that is left: \<open>py\<close> takes them all and \<open>platform\<close>
  is matched with what remains. A \<open>*\<close> positional that matched no string gets its default.
\<close>

definition parse_args :: "string list \<Rightarrow> namespace" where
  "parse_args argv =
     (let py_strings = argv;
          platform_strings = drop (length py_strings) argv
      in \<lparr> ns_py = (if py_strings = [] then [''3.7'', ''3.8'', ''3.9'', ''3.10'']
                   else py_strings),
           ns_platform = (if platform_strings = [] then [''linux-64'', ''linux-aarch64'']
                         else platform_strings) \<rparr>)"

definition default_py :: string where
  "default_py = ''3.7''"

text \<open>\<open>shutil.copy(src, dst)\<close> between file names.\<close>

definition shutil_copy :: "string \<Rightarrow> string \<Rightarrow> world \<Rightarrow> (error + unit) \<times> world" where
  "shutil_copy src dst w =
     (let w1 = emit (Copy src dst) w
      in case files w1 src of
           None \<Rightarrow> (Inl FileNotFoundError, w1)
         | Some text \<Rightarrow>
             if src = dst then (Inl SameFileError, w1)
             else (Inr (), write_file dst text w1))"

text \<open>The body of the inner loop (lines 132 to 137).\<close>

definition iteration :: "host \<Rightarrow> string \<Rightarrow> string \<Rightarrow> world \<Rightarrow> (error + unit) \<times> world" where
  "iteration h py platform w =
     (case str_format ''py'' py (str_path (ENV_FILE_T h)) of
        Inl e \<Rightarrow> (Inl e, w)
      | Inr s \<Rightarrow>
          (let env_file = Path s
           in case set_python h env_file py w of
                (Inl e, w1) \<Rightarrow> (Inl e, w1)
              | (Inr u, w1) \<Rightarrow>
                  (let frozen_file =
                         Path (splitext_root (str_path env_file) @ ''-'' @ platform @ ''.lock'')
                   in case freeze h env_file frozen_file platform w1 of
                        (Inl e, w2) \<Rightarrow> (Inl e, w2)
                      | (Inr u, w2) \<Rightarrow>
                          if py = default_py then
                            (case str_format ''platform'' platform (FROZEN_FILE_T h) of
                               Inl e \<Rightarrow> (Inl e, w2)
                             | Inr dst \<Rightarrow> shutil_copy (str_path frozen_file) dst w2)
                          else (Inr (), w2))))"

fun for_platforms ::
  "host \<Rightarrow> string \<Rightarrow> string list \<Rightarrow> world \<Rightarrow> (error + unit) \<times> world" where
  "for_platforms h py [] w = (Inr (), w)"
| "for_platforms h py (platform # rest) w =
     (case iteration h py platform w of
        (Inl e, w') \<Rightarrow> (Inl e, w')
      | (Inr u, w') \<Rightarrow> for_platforms h py rest w')"

fun for_pys ::
  "host \<Rightarrow> string list \<Rightarrow> string list \<Rightarrow> world \<Rightarrow> (error + unit) \<times> world" where
  "for_pys h [] platforms w = (Inr (), w)"
| "for_pys h (py # rest) platforms w =
     (case for_platforms h py platforms w of
        (Inl e, w') \<Rightarrow> (Inl e, w')
      | (Inr u, w') \<Rightarrow> for_pys h rest platforms w')"

definition main :: "host \<Rightarrow> string list \<Rightarrow> world \<Rightarrow> (error + unit) \<times> world" where
  "main h argv w =
     (let args = parse_args argv
      in for_pys h (ns_py args) (ns_platform args) w)"

subsection \<open>Observations and example hosts\<close>


text \<open>The command lines a trace ran, in order.\<close>

fun calls :: "event list \<Rightarrow> string list list" where
  "calls [] = []"
| "calls (Called argv # es) = argv # calls es"
| "calls (e # es) = calls es"

text \<open>
  A host and a world to run the model on: the script lives in \<open>/r\<close>, the tool exits with
  \<open>status\<close> and, when that is zero, leaves two lock files under their temporary names;
  the loader returns \<open>doc\<close> and the dumper lists the dependencies.
\<close>

definition example_doc :: yaml where
  "example_doc =
     YMap [(YStr ''channels'', YSeq [YStr ''conda-forge'']),
           (YStr ''dependencies'', YSeq [YStr ''pip'', YStr ''python=3.7'', YStr ''numpy''])]"

definition example_dump :: "yaml \<Rightarrow> string" where
  "example_dump y =
     (case getitem_dependencies y of
        Inr (YSeq xs) \<Rightarrow>
          concat (map (\<lambda>d. case d of YStr s \<Rightarrow> ''- '' @ s @ [CHR 0x0A]
                                      | _ \<Rightarrow> ''- ?'' @ [CHR 0x0A]) xs)
      | _ \<Rightarrow> ''?'')"

definition example_host :: "int \<Rightarrow> yaml \<Rightarrow> host" where
  "example_host status doc =
     \<lparr> HERE = Path ''/r'',
       conda_lock = (\<lambda>argv fs.
         (status,
          if status = 0
          then fs(''/r/environment.py-3.7-linux-64.lock.linux-64'' \<mapsto> ''@EXPLICIT'',
                  ''/r/environment-linux-64.lock.linux-64'' \<mapsto> ''@EXPLICIT'')
          else fs)),
       yaml_load = (\<lambda>s. Some doc),
       yaml_dump = example_dump,
       utcnow = (\<lambda>n. ''2021-01-01 00:00:00 UTC'') \<rparr>"

definition fresh_world :: world where
  "fresh_world =
     \<lparr> files = [''/r/environment.yml'' \<mapsto> ''dependencies: [pip, python=3.7, numpy]''],
       trace = [],
       readings = 0 \<rparr>"

text \<open>
  Two worlds with both targets of the \<open>3.7\<close>, \<open>linux-64\<close> pass in place: in the first
  the environment file is a generated one and the lock file is hand-written, in the
  second it is the other way round.
\<close>

definition hand_written_lock_world :: world where
  "hand_written_lock_world =
     write_file ''/r/environment.py-3.7.yml'' (''# AUTO GENERATED, old'' @ [CHR 0x0A])
       (write_file ''/r/environment.py-3.7-linux-64.lock'' (''numpy=1.0'' @ [CHR 0x0A])
          fresh_world)"

definition hand_written_yml_world :: world where
  "hand_written_yml_world =
     write_file ''/r/environment.py-3.7.yml'' (''name: mine'' @ [CHR 0x0A])
       (write_file ''/r/environment.py-3.7-linux-64.lock'' (''# AUTO GENERATED, old'' @ [CHR 0x0A])
          fresh_world)"

text \<open>
  A host whose tool does what conda-lock does with its command line: it takes the
  \<open>--filename-template\<close> and the \<open>--platform\<close> arguments, formats the first with
  the second and leaves \<open>body\<close> under that name.
\<close>

definition arg_value :: "string \<Rightarrow> string list \<Rightarrow> string option" where
  "arg_value pre argv =
     (case filter (\<lambda>a. startswith a pre) argv of
        [] \<Rightarrow> None
      | a # _ \<Rightarrow> Some (drop (length pre) a))"

definition template_lock :: "string \<Rightarrow> string list \<Rightarrow> files \<Rightarrow> int \<times> files" where
  "template_lock body argv fs =
     (case arg_value ''--filename-template='' argv of
        None \<Rightarrow> (2, fs)
      | Some template \<Rightarrow>
          (case arg_value ''--platform='' argv of
             None \<Rightarrow> (2, fs)
           | Some platform \<Rightarrow>
               (case str_format ''platform'' platform template of
                  Inl e \<Rightarrow> (1, fs)
                | Inr name \<Rightarrow> (0, fs(name \<mapsto> body)))))"

definition template_host :: "string \<Rightarrow> host" where
  "template_host body =
     \<lparr> HERE = Path ''/r'',
       conda_lock = template_lock body,
       yaml_load = (\<lambda>s. Some example_doc),
       yaml_dump = example_dump,
       utcnow = (\<lambda>n. ''2021-01-01 00:00:00 UTC'') \<rparr>"

section \<open>Facts about the model\<close>

text \<open>The first piece of a split is what stands before the first separator.\<close>

lemma py_split_hd: "\<exists>rest. py_split sep s = takeWhile (\<lambda>c. c \<noteq> sep) s # rest"
  by (induction s) (auto split: list.splits)

text \<open>The first line either procedure writes holds the marker, whatever follows it.\<close>

lemma marker_in_header: "py_in ''GENERATED'' (readline (''# AUTO GENERATED FROM '' @ rest))"
  by simp

subsection \<open>The world operations\<close>

lemma files_emit [simp]: "files (emit e w) = files w"
  by (simp add: emit_def)

lemma trace_emit [simp]: "trace (emit e w) = trace w @ [e]"
  by (simp add: emit_def)

lemma readings_emit [simp]: "readings (emit e w) = readings w"
  by (simp add: emit_def)

lemma files_write_file [simp]: "files (write_file n t w) = (files w)(n \<mapsto> t)"
  by (simp add: write_file_def)

lemma trace_write_file [simp]: "trace (write_file n t w) = trace w"
  by (simp add: write_file_def)

lemma readings_write_file [simp]: "readings (write_file n t w) = readings w"
  by (simp add: write_file_def)

lemma files_remove_file [simp]: "files (remove_file n w) = (files w)(n := None)"
  by (simp add: remove_file_def)

lemma trace_remove_file [simp]: "trace (remove_file n w) = trace w"
  by (simp add: remove_file_def)

lemma readings_remove_file [simp]: "readings (remove_file n w) = readings w"
  by (simp add: remove_file_def)

lemma read_clock_simp [simp]:
  "read_clock h w = (utcnow h (readings w), w\<lparr>readings := Suc (readings w)\<rparr>)"
  by (simp add: read_clock_def)

text \<open>\<open>ENV_FILE.relative_to(HERE)\<close> (line 103) never fails: its text is \<open>environment.yml\<close>.\<close>

lemma env_file_relative:
  "relative_to (ENV_FILE h) (HERE h) = Inr \<lparr> anchor = '''', names = [''environment.yml''] \<rparr>"
  by (simp add: relative_to_def ENV_FILE_def joinpath_def Path_def)

lemma env_file_relative_str:
  "str_path \<lparr> anchor = '''', names = [''environment.yml''] \<rparr> = ''environment.yml''"
  by (simp add: str_path_def)

lemma startswith_append: "startswith cs pre \<Longrightarrow> \<exists>rest. cs = pre @ rest"
  by (induction cs pre rule: startswith.induct) auto

lemma stamped_has_marker:
  "startswith cs ''# AUTO GENERATED FROM '' \<Longrightarrow> py_in ''GENERATED'' (readline cs)"
  using startswith_append [of cs "''# AUTO GENERATED FROM ''"] marker_in_header
  by fastforce


lemma calls_append: "calls (xs @ ys) = calls xs @ calls ys"
  by (induction xs rule: calls.induct) auto

subsection \<open>set_python\<close>

lemma set_python_skip:
  "not_autogenerated w (str_path p) \<Longrightarrow> set_python h p py w = (Inr (), w)"
  by (simp add: set_python_def)

lemma set_python_proceed:
  "\<not> not_autogenerated w (str_path p) \<Longrightarrow>
   set_python h p py w = set_python_regenerate h p py w"
  by (simp add: set_python_def)

lemma set_python_regenerate_Inr:
  assumes "fst (set_python_regenerate h p py w) = Inr ()"
  shows "\<exists>src env env'.
           files w (str_path (ENV_FILE h)) = Some src \<and>
           yaml_load h src = Some env \<and>
           replace_python env py = Inr env' \<and>
           files (snd (set_python_regenerate h p py w)) =
             (files w)(str_path p \<mapsto>
               ''# AUTO GENERATED FROM environment.yml, DO NOT MANUALLY MODIFY'' @ [CHR 0x0A]
               @ ''# Generated on '' @ utcnow h (readings w) @ [CHR 0x0A]
               @ yaml_dump h env')"
  using assms
  by (auto simp: set_python_regenerate_def Let_def env_file_relative env_file_relative_str
           split: option.splits sum.splits)

lemma set_python_regenerate_trace:
  "trace (snd (set_python_regenerate h p py w)) =
     trace w @ [Printed (''Regenerating '' @ str_path p @ '' from '' @ str_path (ENV_FILE h))]"
  by (auto simp: set_python_regenerate_def Let_def env_file_relative
           split: option.splits sum.splits)

lemma set_python_regenerate_Inl:
  assumes "fst (set_python_regenerate h p py w) = Inl e"
  shows "files (snd (set_python_regenerate h p py w)) = files w"
  using assms
  by (auto simp: set_python_regenerate_def Let_def env_file_relative env_file_relative_str
           split: option.splits sum.splits)

subsection \<open>freeze\<close>

lemma check_call_simp:
  "conda_lock h argv (files w) = (st, fs) \<Longrightarrow>
   check_call h argv w =
     (if st = 0 then Inr () else Inl (CalledProcessError st), emit (Called argv) (w\<lparr>files := fs\<rparr>))"
  by (simp add: check_call_def)

lemma freeze_proceed:
  "\<not> not_autogenerated w (str_path (joinpath (HERE h) frozen_file)) \<Longrightarrow>
   freeze h env_file frozen_file platform w = freeze_run h env_file frozen_file platform w"
  by (simp add: freeze_def Let_def)

text \<open>
  When the guard of \<open>freeze\<close> fires, no file changes and no command is run; how the call
  ends depends on \<open>frozen_file.relative_to(HERE)\<close> in the message of line 48.
\<close>

lemma freeze_skip_files:
  "not_autogenerated w (str_path (joinpath (HERE h) frozen_file)) \<Longrightarrow>
   files (snd (freeze h env_file frozen_file platform w)) = files w"
  by (simp add: freeze_def Let_def split: sum.splits)

lemma freeze_skip_calls:
  "not_autogenerated w (str_path (joinpath (HERE h) frozen_file)) \<Longrightarrow>
   calls (trace (snd (freeze h env_file frozen_file platform w))) = calls (trace w)"
  by (simp add: freeze_def Let_def calls_append split: sum.splits)

lemma freeze_skip_result:
  "not_autogenerated w (str_path (joinpath (HERE h) frozen_file)) \<Longrightarrow>
   fst (freeze h env_file frozen_file platform w) =
     (case relative_to frozen_file (HERE h) of Inl e \<Rightarrow> Inl e | Inr rel \<Rightarrow> Inr ())"
  by (simp add: freeze_def Let_def split: sum.splits)

lemma freeze_run_Inr:
  assumes "fst (freeze_run h env_file frozen_file platform w) = Inr ()"
    and "conda_lock h (conda_lock_argv env_file (joinpath (HERE h) frozen_file) platform) (files w)
           = (st, fs)"
  shows "\<exists>tmp rel body.
           frozen_tempfile (joinpath (HERE h) frozen_file) platform = Inr tmp \<and>
           st = 0 \<and>
           relative_to env_file (HERE h) = Inr rel \<and>
           (fs(str_path (joinpath (HERE h) frozen_file) \<mapsto> [])) (str_path tmp) = Some body \<and>
           files (snd (freeze_run h env_file frozen_file platform w)) =
             (fs(str_path (joinpath (HERE h) frozen_file) \<mapsto>
                  ''# AUTO GENERATED FROM '' @ str_path rel @ '', DO NOT MANUALLY MODIFY''
                  @ [CHR 0x0A] @ ''# Frozen on '' @ utcnow h (readings w) @ [CHR 0x0A]
                  @ read_text body))
             (str_path tmp := None) \<and>
           trace (snd (freeze_run h env_file frozen_file platform w)) =
             trace w @
               [Printed (''Freezing '' @ str_path env_file @ '' -> '' @ str_path frozen_file),
                Called (conda_lock_argv env_file (joinpath (HERE h) frozen_file) platform)]"
  using assms
  by (auto simp: freeze_run_def Let_def check_call_simp
           split: option.splits sum.splits if_splits)

lemma freeze_run_trace:
  "\<exists>rest. trace (snd (freeze_run h env_file frozen_file platform w)) =
           trace w @
             Printed (''Freezing '' @ str_path env_file @ '' -> '' @ str_path frozen_file) # rest"
  by (auto simp: freeze_run_def check_call_def Let_def
           split: option.splits sum.splits prod.splits if_splits)

text \<open>Reading in text mode changes nothing in a text without carriage returns.\<close>

lemma read_text_plain: "CHR 0x0D \<notin> set cs \<Longrightarrow> read_text cs = cs"
  by (induction cs rule: read_text.induct) auto

lemma freeze_run_tool_fails:
  assumes "frozen_tempfile (joinpath (HERE h) frozen_file) platform = Inr tmp"
    and "conda_lock h (conda_lock_argv env_file (joinpath (HERE h) frozen_file) platform) (files w)
           = (st, fs)"
    and "st \<noteq> 0"
  shows "freeze_run h env_file frozen_file platform w =
           (Inl (CalledProcessError st),
            emit (Called (conda_lock_argv env_file (joinpath (HERE h) frozen_file) platform))
              (emit (Printed (''Freezing '' @ str_path env_file @ '' -> '' @ str_path frozen_file)) w
                 \<lparr>files := fs\<rparr>))"
  using assms
  by (simp add: freeze_run_def Let_def check_call_simp)

subsection \<open>The search for the python entry\<close>

lemma find_python_Inr:
  "find_python i xs = Inr idx \<Longrightarrow>
   i \<le> idx \<and> idx - i < length xs \<and>
   (\<exists>s. xs ! (idx - i) = YStr s \<and> takeWhile (\<lambda>c. c \<noteq> CHR ''='') s = ''python'') \<and>
   (\<forall>j < idx - i. \<exists>s. xs ! j = YStr s \<and> takeWhile (\<lambda>c. c \<noteq> CHR ''='') s \<noteq> ''python'')"
proof (induction xs arbitrary: i)
  case Nil
  then show ?case by simp
next
  case (Cons d xs)
  from Cons.prems obtain s where d: "d = YStr s"
    by (cases d) auto
  obtain rest where sp: "py_split CHR ''='' s = takeWhile (\<lambda>c. c \<noteq> CHR ''='') s # rest"
    using py_split_hd by blast
  show ?case
  proof (cases "takeWhile (\<lambda>c. c \<noteq> CHR ''='') s = ''python''")
    case True
    with Cons.prems d sp have "idx = i" by simp
    with True d show ?thesis by simp
  next
    case False
    with Cons.prems d sp have rec: "find_python (Suc i) xs = Inr idx" by simp
    from Cons.IH [OF rec] have ih:
      "Suc i \<le> idx" "idx - Suc i < length xs"
      "\<exists>s. xs ! (idx - Suc i) = YStr s \<and> takeWhile (\<lambda>c. c \<noteq> CHR ''='') s = ''python''"
      "\<forall>j < idx - Suc i. \<exists>s. xs ! j = YStr s \<and> takeWhile (\<lambda>c. c \<noteq> CHR ''='') s \<noteq> ''python''"
      by blast+
    from ih(1) have k: "idx - i = Suc (idx - Suc i)" by arith
    have "\<forall>j < idx - i. \<exists>t. (d # xs) ! j = YStr t \<and> takeWhile (\<lambda>c. c \<noteq> CHR ''='') t \<noteq> ''python''"
    proof (intro allI impI)
      fix j assume "j < idx - i"
      then show "\<exists>t. (d # xs) ! j = YStr t \<and> takeWhile (\<lambda>c. c \<noteq> CHR ''='') t \<noteq> ''python''"
        using ih(4) d False k by (cases j) auto
    qed
    with ih k show ?thesis by auto
  qed
qed

lemma find_python_ValueError:
  "find_python i xs = Inl ValueError \<longleftrightarrow>
   list_all (\<lambda>d. \<exists>s. d = YStr s \<and> takeWhile (\<lambda>c. c \<noteq> CHR ''='') s \<noteq> ''python'') xs"
proof (induction xs arbitrary: i)
  case Nil
  then show ?case by simp
next
  case (Cons d xs)
  show ?case
  proof (cases d)
    case (YStr s)
    obtain rest where sp: "py_split CHR ''='' s = takeWhile (\<lambda>c. c \<noteq> CHR ''='') s # rest"
      using py_split_hd by blast
    with YStr Cons.IH show ?thesis by simp
  qed simp_all
qed



lemma replace_python_seq:
  assumes "map_of kvs (YStr ''dependencies'') = Some (YSeq deps)"
  shows "replace_python (YMap kvs) py =
           (case find_python 0 deps of
              Inl e \<Rightarrow> Inl e
            | Inr idx \<Rightarrow>
                Inr (YMap (setitem_map (YStr ''dependencies'')
                             (YSeq (deps[idx := YStr (''python='' @ py @ ''.*'')])) kvs)))"
proof (cases "find_python 0 deps")
  case (Inl e)
  with assms show ?thesis
    by (simp add: replace_python_def getitem_dependencies_def py_iter_def)
next
  case (Inr idx)
  from find_python_Inr [OF Inr] have "idx < length deps" by simp
  with assms Inr show ?thesis
    by (simp add: replace_python_def getitem_dependencies_def py_iter_def setitem_index_def)
qed

subsection \<open>The main loop\<close>










subsection \<open>What a completed regeneration leaves\<close>

lemma regenerated_is_stamped:
  assumes "fst (set_python_regenerate h p py w) = Inr ()"
  shows "\<exists>new. files (snd (set_python_regenerate h p py w)) (str_path p) = Some new \<and>
               startswith new ''# AUTO GENERATED FROM ''"
  using set_python_regenerate_Inr [OF assms] by auto

lemma frozen_is_stamped:
  assumes "fst (freeze_run h env_file frozen_file platform w) = Inr ()"
    and "frozen_tempfile (joinpath (HERE h) frozen_file) platform = Inr tmp"
    and "str_path tmp \<noteq> str_path (joinpath (HERE h) frozen_file)"
  shows "\<exists>new. files (snd (freeze_run h env_file frozen_file platform w))
                 (str_path (joinpath (HERE h) frozen_file)) = Some new \<and>
               startswith new ''# AUTO GENERATED FROM ''"
proof -
  obtain st fs where tool:
    "conda_lock h (conda_lock_argv env_file (joinpath (HERE h) frozen_file) platform) (files w)
       = (st, fs)"
    by fastforce
  from freeze_run_Inr [OF assms(1) tool] assms(2,3) show ?thesis
    by auto
qed

text \<open>The definitions that evaluate the model on a concrete host and world.\<close>

lemmas model_defs =
  set_python_def set_python_regenerate_def freeze_def freeze_run_def check_call_def
  frozen_tempfile_def conda_lock_argv_def not_autogenerated_def
  example_host_def example_doc_def example_dump_def fresh_world_def
  ENV_FILE_def ENV_FILE_T_def FROZEN_FILE_T_def splitext_root_def
  joinpath_def Path_def str_path_def relative_to_def
  replace_python_def getitem_dependencies_def py_iter_def setitem_index_def
  shutil_copy_def iteration_def default_py_def parse_args_def Let_def

text \<open>The definitions of the host whose tool follows the filename template.\<close>

lemmas template_defs =
  template_host_def template_lock_def arg_value_def main_def

text \<open>No command line reaches \<open>platform\<close>.\<close>

lemma platform_always_default:
  "ns_platform (parse_args argv) = [''linux-64'', ''linux-aarch64'']"
  by (simp add: parse_args_def)

section \<open>The claims\<close>

subsection \<open>C1: a target without the marker is left alone\<close>

text \<open>
  Claim C1: for every call of \<open>freeze\<close> and of \<open>set_python\<close>, if the target exists and
  its first line does not hold \<open>GENERATED\<close>, the function returns without modifying the
  file and without running the locking tool.

  The files and the tool are left alone (\<open>set_python_skip\<close>, \<open>freeze_skip_files\<close>,
  \<open>freeze_skip_calls\<close>), and \<open>set_python\<close> returns. \<open>freeze\<close> does not always return:
  the file it checks is \<open>HERE / frozen_file\<close> (line 41), which accepts a relative
  \<open>frozen_file\<close>, but its message is built from \<open>frozen_file.relative_to(HERE)\<close>
  (line 48), which raises ValueError for every \<open>frozen_file\<close> that does not lie under
  \<open>HERE\<close>. Here \<open>/r/environment-linux-64.lock\<close> is hand-written and \<open>freeze\<close> is
  called with the relative name \<open>environment-linux-64.lock\<close>: the world is unchanged and
  the call ends in ValueError.
\<close>

theorem freeze_relative_lock_raises:
  "not_autogenerated
     (write_file ''/r/environment-linux-64.lock'' (''numpy=1.0'' @ [CHR 0x0A]) fresh_world)
     (str_path (joinpath (HERE (example_host 0 example_doc)) (Path ''environment-linux-64.lock''))) \<and>
   freeze (example_host 0 example_doc) (Path ''/r/environment.yml'')
     (Path ''environment-linux-64.lock'') ''linux-64''
     (write_file ''/r/environment-linux-64.lock'' (''numpy=1.0'' @ [CHR 0x0A]) fresh_world)
   = (Inl ValueError,
      write_file ''/r/environment-linux-64.lock'' (''numpy=1.0'' @ [CHR 0x0A]) fresh_world)"
  by (simp add: model_defs)

subsection \<open>C2: the marker decides between skipping and overwriting\<close>

text \<open>
  Claim C2, as amended: for \<open>set_python\<close> and for \<open>freeze\<close>, a target whose first line
  lacks the marker \<open>GENERATED\<close> is left as it is (\<open>set_python\<close> returns with the world
  it got; \<open>freeze\<close> changes no file and runs no command), and a target whose first line
  holds the marker is regenerated: the procedure announces the regeneration on its
  output and, when it returns, the target is overwritten with the new text, which is the
  two header lines followed by the dump of the loaded document with its python entry
  replaced (\<open>set_python\<close>), or by the text of the temporary file conda-lock left
  (\<open>freeze\<close>). The claim as written has the two cases the other way round.

  The temporary file of \<open>freeze\<close> is taken to be another file than the target, which
  holds for every name the script builds.
\<close>

theorem marker_decides_overwriting:
  assumes "files w (str_path py_env_file) = Some text1"
    and "files w (str_path (joinpath (HERE h) frozen_file)) = Some text2"
    and "frozen_tempfile (joinpath (HERE h) frozen_file) platform = Inr tmp"
    and "str_path tmp \<noteq> str_path (joinpath (HERE h) frozen_file)"
  shows "(\<not> py_in ''GENERATED'' (readline text1) \<longrightarrow>
            set_python h py_env_file py w = (Inr (), w)) \<and>
         (py_in ''GENERATED'' (readline text1) \<longrightarrow>
            trace (snd (set_python h py_env_file py w)) =
              trace w @ [Printed (''Regenerating '' @ str_path py_env_file @ '' from ''
                                   @ str_path (ENV_FILE h))] \<and>
            (fst (set_python h py_env_file py w) = Inr () \<longrightarrow>
               (\<exists>src env env'.
                  files w (str_path (ENV_FILE h)) = Some src \<and>
                  yaml_load h src = Some env \<and>
                  replace_python env py = Inr env' \<and>
                  files (snd (set_python h py_env_file py w)) =
                    (files w)(str_path py_env_file \<mapsto>
                      ''# AUTO GENERATED FROM environment.yml, DO NOT MANUALLY MODIFY''
                      @ [CHR 0x0A] @ ''# Generated on '' @ utcnow h (readings w) @ [CHR 0x0A]
                      @ yaml_dump h env')))) \<and>
         (\<not> py_in ''GENERATED'' (readline text2) \<longrightarrow>
            files (snd (freeze h env_file frozen_file platform w)) = files w \<and>
            calls (trace (snd (freeze h env_file frozen_file platform w))) = calls (trace w)) \<and>
         (py_in ''GENERATED'' (readline text2) \<longrightarrow>
            (\<exists>rest. trace (snd (freeze h env_file frozen_file platform w)) =
                      trace w @
                        Printed (''Freezing '' @ str_path env_file @ '' -> ''
                                 @ str_path frozen_file) # rest) \<and>
            (fst (freeze h env_file frozen_file platform w) = Inr () \<longrightarrow>
               (\<exists>rel fs body.
                  conda_lock h (conda_lock_argv env_file (joinpath (HERE h) frozen_file) platform)
                    (files w) = (0, fs) \<and>
                  relative_to env_file (HERE h) = Inr rel \<and>
                  fs (str_path tmp) = Some body \<and>
                  files (snd (freeze h env_file frozen_file platform w))
                    (str_path (joinpath (HERE h) frozen_file)) =
                    Some (''# AUTO GENERATED FROM '' @ str_path rel @ '', DO NOT MANUALLY MODIFY''
                          @ [CHR 0x0A] @ ''# Frozen on '' @ utcnow h (readings w) @ [CHR 0x0A]
                          @ read_text body))))"
proof (intro conjI impI)
  assume "\<not> py_in ''GENERATED'' (readline text1)"
  with assms(1) have "not_autogenerated w (str_path py_env_file)"
    by (simp add: not_autogenerated_def)
  then show "set_python h py_env_file py w = (Inr (), w)"
    by (rule set_python_skip)
next
  assume "py_in ''GENERATED'' (readline text1)"
  with assms(1) have "\<not> not_autogenerated w (str_path py_env_file)"
    by (simp add: not_autogenerated_def)
  then have eq: "set_python h py_env_file py w = set_python_regenerate h py_env_file py w"
    by (rule set_python_proceed)
  show "trace (snd (set_python h py_env_file py w)) =
          trace w @ [Printed (''Regenerating '' @ str_path py_env_file @ '' from ''
                               @ str_path (ENV_FILE h))]"
    unfolding eq by (rule set_python_regenerate_trace)
  assume "fst (set_python h py_env_file py w) = Inr ()"
  with eq have "fst (set_python_regenerate h py_env_file py w) = Inr ()"
    by simp
  from set_python_regenerate_Inr [OF this]
  show "\<exists>src env env'.
          files w (str_path (ENV_FILE h)) = Some src \<and>
          yaml_load h src = Some env \<and>
          replace_python env py = Inr env' \<and>
          files (snd (set_python h py_env_file py w)) =
            (files w)(str_path py_env_file \<mapsto>
              ''# AUTO GENERATED FROM environment.yml, DO NOT MANUALLY MODIFY''
              @ [CHR 0x0A] @ ''# Generated on '' @ utcnow h (readings w) @ [CHR 0x0A]
              @ yaml_dump h env')"
    unfolding eq .
next
  assume "\<not> py_in ''GENERATED'' (readline text2)"
  with assms(2) have skip: "not_autogenerated w (str_path (joinpath (HERE h) frozen_file))"
    by (simp add: not_autogenerated_def)
  then show "files (snd (freeze h env_file frozen_file platform w)) = files w"
    by (rule freeze_skip_files)
  from skip show "calls (trace (snd (freeze h env_file frozen_file platform w))) = calls (trace w)"
    by (rule freeze_skip_calls)
next
  assume "py_in ''GENERATED'' (readline text2)"
  with assms(2) have "\<not> not_autogenerated w (str_path (joinpath (HERE h) frozen_file))"
    by (simp add: not_autogenerated_def)
  then have eq: "freeze h env_file frozen_file platform w
                   = freeze_run h env_file frozen_file platform w"
    by (rule freeze_proceed)
  show "\<exists>rest. trace (snd (freeze h env_file frozen_file platform w)) =
                 trace w @
                   Printed (''Freezing '' @ str_path env_file @ '' -> ''
                            @ str_path frozen_file) # rest"
    unfolding eq by (rule freeze_run_trace)
  assume "fst (freeze h env_file frozen_file platform w) = Inr ()"
  with eq have ok: "fst (freeze_run h env_file frozen_file platform w) = Inr ()"
    by simp
  obtain st fs where tool:
    "conda_lock h (conda_lock_argv env_file (joinpath (HERE h) frozen_file) platform) (files w)
       = (st, fs)"
    by fastforce
  from freeze_run_Inr [OF ok tool] assms(3,4) tool
  show "\<exists>rel fs body.
          conda_lock h (conda_lock_argv env_file (joinpath (HERE h) frozen_file) platform)
            (files w) = (0, fs) \<and>
          relative_to env_file (HERE h) = Inr rel \<and>
          fs (str_path tmp) = Some body \<and>
          files (snd (freeze h env_file frozen_file platform w))
            (str_path (joinpath (HERE h) frozen_file)) =
            Some (''# AUTO GENERATED FROM '' @ str_path rel @ '', DO NOT MANUALLY MODIFY''
                  @ [CHR 0x0A] @ ''# Frozen on '' @ utcnow h (readings w) @ [CHR 0x0A]
                  @ read_text body)"
    unfolding eq by auto
qed

text \<open>
  A witness of C2. With a generated \<open>/r/environment.py-3.7.yml\<close> and a hand-written
  \<open>/r/environment.py-3.7-linux-64.lock\<close>, \<open>set_python\<close> overwrites the first with the
  text for \<open>3.7\<close> and \<open>freeze\<close> leaves every file as it was and runs nothing; with a
  hand-written environment file and a generated lock file it is \<open>set_python\<close> that
  returns the world it got and \<open>freeze\<close> that overwrites.
\<close>

theorem marker_decides_overwriting_witness:
  "trace (snd (set_python (example_host 0 example_doc) (Path ''/r/environment.py-3.7.yml'')
                 ''3.7'' hand_written_lock_world))
   = [Printed ''Regenerating /r/environment.py-3.7.yml from /r/environment.yml''] \<and>
   files (snd (set_python (example_host 0 example_doc) (Path ''/r/environment.py-3.7.yml'')
                 ''3.7'' hand_written_lock_world))
     ''/r/environment.py-3.7.yml''
   = Some (''# AUTO GENERATED FROM environment.yml, DO NOT MANUALLY MODIFY'' @ [CHR 0x0A]
           @ ''# Generated on 2021-01-01 00:00:00 UTC'' @ [CHR 0x0A]
           @ ''- pip'' @ [CHR 0x0A] @ ''- python=3.7.*'' @ [CHR 0x0A] @ ''- numpy'' @ [CHR 0x0A]) \<and>
   files (snd (freeze (example_host 0 example_doc) (Path ''/r/environment.py-3.7.yml'')
                 (Path ''/r/environment.py-3.7-linux-64.lock'') ''linux-64''
                 hand_written_lock_world))
   = files hand_written_lock_world \<and>
   calls (trace (snd (freeze (example_host 0 example_doc) (Path ''/r/environment.py-3.7.yml'')
                        (Path ''/r/environment.py-3.7-linux-64.lock'') ''linux-64''
                        hand_written_lock_world)))
   = [] \<and>
   set_python (example_host 0 example_doc) (Path ''/r/environment.py-3.7.yml'') ''3.7''
     hand_written_yml_world
   = (Inr (), hand_written_yml_world) \<and>
   files (snd (freeze (example_host 0 example_doc) (Path ''/r/environment.py-3.7.yml'')
                 (Path ''/r/environment.py-3.7-linux-64.lock'') ''linux-64''
                 hand_written_yml_world))
     ''/r/environment.py-3.7-linux-64.lock''
   = Some (''# AUTO GENERATED FROM environment.py-3.7.yml, DO NOT MANUALLY MODIFY'' @ [CHR 0x0A]
           @ ''# Frozen on 2021-01-01 00:00:00 UTC'' @ [CHR 0x0A] @ ''@EXPLICIT'')"
proof -
  let ?h = "example_host 0 example_doc"
  let ?yml = "Path ''/r/environment.py-3.7.yml''"
  let ?lock = "Path ''/r/environment.py-3.7-linux-64.lock''"
  let ?tmp = "Path ''/r/environment.py-3.7-linux-64.lock.linux-64''"
  have y: "str_path ?yml = ''/r/environment.py-3.7.yml''"
    and d: "str_path (joinpath (HERE ?h) ?lock) = ''/r/environment.py-3.7-linux-64.lock''"
    and t: "str_path ?tmp = ''/r/environment.py-3.7-linux-64.lock.linux-64''"
    and e: "str_path (ENV_FILE ?h) = ''/r/environment.yml''"
    by (simp_all add: model_defs)
  have a3: "frozen_tempfile (joinpath (HERE ?h) ?lock) ''linux-64'' = Inr ?tmp"
    by (simp add: model_defs)
  have a4: "str_path ?tmp \<noteq> str_path (joinpath (HERE ?h) ?lock)"
    by (simp add: model_defs)
  have m1: "py_in ''GENERATED'' (readline (''# AUTO GENERATED, old'' @ [CHR 0x0A]))"
    by simp
  have m2: "\<not> py_in ''GENERATED'' (readline (''numpy=1.0'' @ [CHR 0x0A]))"
    by simp
  have m3: "\<not> py_in ''GENERATED'' (readline (''name: mine'' @ [CHR 0x0A]))"
    by simp
  have b1: "files hand_written_lock_world (str_path ?yml)
              = Some (''# AUTO GENERATED, old'' @ [CHR 0x0A])"
    by (simp add: model_defs hand_written_lock_world_def)
  have b2: "files hand_written_lock_world (str_path (joinpath (HERE ?h) ?lock))
              = Some (''numpy=1.0'' @ [CHR 0x0A])"
    by (simp add: model_defs hand_written_lock_world_def)
  have c1: "files hand_written_yml_world (str_path ?yml) = Some (''name: mine'' @ [CHR 0x0A])"
    by (simp add: model_defs hand_written_yml_world_def)
  have c2: "files hand_written_yml_world (str_path (joinpath (HERE ?h) ?lock))
              = Some (''# AUTO GENERATED, old'' @ [CHR 0x0A])"
    by (simp add: model_defs hand_written_yml_world_def)
  have s1: "fst (set_python ?h ?yml ''3.7'' hand_written_lock_world) = Inr ()"
    by (simp add: model_defs hand_written_lock_world_def)
  have s2: "fst (freeze ?h ?yml ?lock ''linux-64'' hand_written_yml_world) = Inr ()"
    by (simp add: model_defs hand_written_yml_world_def)
  have t0: "trace hand_written_lock_world = []"
    by (simp add: hand_written_lock_world_def fresh_world_def)
  have u1: "utcnow ?h (readings hand_written_lock_world) = ''2021-01-01 00:00:00 UTC''"
    and u2: "utcnow ?h (readings hand_written_yml_world) = ''2021-01-01 00:00:00 UTC''"
    by (simp_all add: model_defs)
  note k = marker_decides_overwriting [OF b1 b2 a3 a4, of "''3.7''" ?yml]
  note l = marker_decides_overwriting [OF c1 c2 a3 a4, of "''3.7''" ?yml]
  note k2 = k [THEN conjunct2, THEN conjunct1, rule_format, OF m1]
  note k3 = k [THEN conjunct2, THEN conjunct2, THEN conjunct1, rule_format, OF m2]
  note l4 = l [THEN conjunct2, THEN conjunct2, THEN conjunct2, rule_format, OF m1]
  have r1: "trace (snd (set_python ?h ?yml ''3.7'' hand_written_lock_world))
              = [Printed ''Regenerating /r/environment.py-3.7.yml from /r/environment.yml'']"
    using k2 [THEN conjunct1] by (simp add: t0 y e)
  from k2 [THEN conjunct2, rule_format, OF s1] obtain src env env' where
    g: "yaml_load ?h src = Some env" "replace_python env ''3.7'' = Inr env'"
       "files (snd (set_python ?h ?yml ''3.7'' hand_written_lock_world)) =
          (files hand_written_lock_world)(str_path ?yml \<mapsto>
             ''# AUTO GENERATED FROM environment.yml, DO NOT MANUALLY MODIFY''
             @ [CHR 0x0A] @ ''# Generated on '' @ utcnow ?h (readings hand_written_lock_world)
             @ [CHR 0x0A] @ yaml_dump ?h env')"
    by blast
  from g(1) have env: "env = example_doc"
    by (simp add: example_host_def)
  from g(2) have env': "env' = YMap [(YStr ''channels'', YSeq [YStr ''conda-forge'']),
           (YStr ''dependencies'', YSeq [YStr ''pip'', YStr ''python=3.7.*'', YStr ''numpy''])]"
    unfolding env by (simp add: model_defs)
  have dump: "yaml_dump ?h env' = ''- pip'' @ [CHR 0x0A] @ ''- python=3.7.*'' @ [CHR 0x0A]
                                   @ ''- numpy'' @ [CHR 0x0A]"
    unfolding env' by (simp add: model_defs)
  have r2: "files (snd (set_python ?h ?yml ''3.7'' hand_written_lock_world))
              ''/r/environment.py-3.7.yml''
            = Some (''# AUTO GENERATED FROM environment.yml, DO NOT MANUALLY MODIFY'' @ [CHR 0x0A]
                    @ ''# Generated on 2021-01-01 00:00:00 UTC'' @ [CHR 0x0A]
                    @ ''- pip'' @ [CHR 0x0A] @ ''- python=3.7.*'' @ [CHR 0x0A] @ ''- numpy''
                    @ [CHR 0x0A])"
    unfolding g(3) y u1 dump by simp
  have r3: "files (snd (freeze ?h ?yml ?lock ''linux-64'' hand_written_lock_world))
              = files hand_written_lock_world"
    by (rule k3 [THEN conjunct1])
  have r4: "calls (trace (snd (freeze ?h ?yml ?lock ''linux-64'' hand_written_lock_world))) = []"
    using k3 [THEN conjunct2] by (simp add: t0)
  have r5: "set_python ?h ?yml ''3.7'' hand_written_yml_world = (Inr (), hand_written_yml_world)"
    by (rule l [THEN conjunct1, rule_format, OF m3])
  from l4 [THEN conjunct2, rule_format, OF s2] obtain rel fs body where
    f: "conda_lock ?h (conda_lock_argv ?yml (joinpath (HERE ?h) ?lock) ''linux-64'')
          (files hand_written_yml_world) = (0, fs)"
       "relative_to ?yml (HERE ?h) = Inr rel"
       "fs (str_path ?tmp) = Some body"
       "files (snd (freeze ?h ?yml ?lock ''linux-64'' hand_written_yml_world))
          (str_path (joinpath (HERE ?h) ?lock)) =
          Some (''# AUTO GENERATED FROM '' @ str_path rel @ '', DO NOT MANUALLY MODIFY''
                @ [CHR 0x0A] @ ''# Frozen on '' @ utcnow ?h (readings hand_written_yml_world)
                @ [CHR 0x0A] @ read_text body)"
    by blast
  from f(1) have fs: "fs = (files hand_written_yml_world)
               (''/r/environment.py-3.7-linux-64.lock.linux-64'' \<mapsto> ''@EXPLICIT'',
                ''/r/environment-linux-64.lock.linux-64'' \<mapsto> ''@EXPLICIT'')"
    by (simp add: example_host_def)
  from f(3) have body: "body = ''@EXPLICIT''"
    unfolding fs t by simp
  from f(2) have "rel = \<lparr> anchor = [], names = [''environment.py-3.7.yml''] \<rparr>"
    by (simp add: model_defs)
  then have rel: "str_path rel = ''environment.py-3.7.yml''"
    by (simp add: str_path_def)
  have r6: "files (snd (freeze ?h ?yml ?lock ''linux-64'' hand_written_yml_world))
              ''/r/environment.py-3.7-linux-64.lock''
            = Some (''# AUTO GENERATED FROM environment.py-3.7.yml, DO NOT MANUALLY MODIFY''
                    @ [CHR 0x0A] @ ''# Frozen on 2021-01-01 00:00:00 UTC'' @ [CHR 0x0A]
                    @ ''@EXPLICIT'')"
    using f(4) unfolding d rel u2 body by simp
  show ?thesis
    by (intro conjI) (rule r1, rule r2, rule r3, rule r4, rule r5, rule r6)
qed

text \<open>
  The counterexample to C2 as written: the target with the marker in its first line is
  overwritten (the python entry of the new text is \<open>python=3.8.*\<close>), and the target
  without the marker is kept.
\<close>

theorem marker_skips_overwriting_counterexample:
  "py_in ''GENERATED'' (readline (''# AUTO GENERATED, old'' @ [CHR 0x0A])) \<and>
   files (snd (set_python (example_host 0 example_doc) (Path ''/r/environment.py-3.8.yml'') ''3.8''
                 (write_file ''/r/environment.py-3.8.yml'' (''# AUTO GENERATED, old'' @ [CHR 0x0A])
                    fresh_world)))
     ''/r/environment.py-3.8.yml''
   = Some (''# AUTO GENERATED FROM environment.yml, DO NOT MANUALLY MODIFY'' @ [CHR 0x0A]
           @ ''# Generated on 2021-01-01 00:00:00 UTC'' @ [CHR 0x0A]
           @ ''- pip'' @ [CHR 0x0A] @ ''- python=3.8.*'' @ [CHR 0x0A] @ ''- numpy'' @ [CHR 0x0A]) \<and>
   \<not> py_in ''GENERATED'' (readline (''name: mine'' @ [CHR 0x0A])) \<and>
   files (snd (set_python (example_host 0 example_doc) (Path ''/r/environment.py-3.8.yml'') ''3.8''
                 (write_file ''/r/environment.py-3.8.yml'' (''name: mine'' @ [CHR 0x0A])
                    fresh_world)))
     ''/r/environment.py-3.8.yml''
   = Some (''name: mine'' @ [CHR 0x0A])"
  by (simp add: model_defs)

subsection \<open>C3: the first python entry is replaced, nothing else\<close>



subsection \<open>C4: the ValueError of set_python\<close>

text \<open>
  Claim C4, as amended: when \<open>set_python\<close> regenerates from a document whose
  \<open>dependencies\<close> is the list \<open>deps\<close>, it raises ValueError if and only if every entry
  of \<open>deps\<close> is a string whose text before the first \<open>=\<close> is not \<open>python\<close> (the search
  then runs off the end of the list); and whenever it ends in an error, ValueError
  included, no file is written. The claim as written also promises ValueError for a list
  that holds an entry that is not a string, where \<open>dep.split\<close> raises AttributeError
  first.
\<close>

theorem set_python_value_error:
  assumes "\<not> not_autogenerated w (str_path py_env_file)"
    and "files w (str_path (ENV_FILE h)) = Some src"
    and "yaml_load h src = Some (YMap kvs)"
    and "map_of kvs (YStr ''dependencies'') = Some (YSeq deps)"
  shows "(fst (set_python h py_env_file py w) = Inl ValueError \<longleftrightarrow>
            list_all (\<lambda>d. \<exists>s. d = YStr s \<and> takeWhile (\<lambda>c. c \<noteq> CHR ''='') s \<noteq> ''python'') deps) \<and>
         (\<forall>e. fst (set_python h py_env_file py w) = Inl e \<longrightarrow>
               files (snd (set_python h py_env_file py w)) = files w)"
proof -
  from assms(1) have eq: "set_python h py_env_file py w = set_python_regenerate h py_env_file py w"
    by (rule set_python_proceed)
  have "fst (set_python_regenerate h py_env_file py w) = Inl ValueError \<longleftrightarrow>
          find_python 0 deps = Inl ValueError"
    using assms(2,3) replace_python_seq [OF assms(4), of py]
    by (cases "find_python 0 deps")
       (auto simp: set_python_regenerate_def Let_def env_file_relative)
  with eq find_python_ValueError [of 0 deps] set_python_regenerate_Inl [of h py_env_file py w]
  show ?thesis by simp
qed

text \<open>A witness of C4: the dependencies \<open>pip, numpy=1.21\<close>.\<close>

theorem set_python_value_error_witness:
  "\<not> not_autogenerated fresh_world (str_path (Path ''/r/environment.py-3.8.yml'')) \<and>
   list_all (\<lambda>d. \<exists>s. d = YStr s \<and> takeWhile (\<lambda>c. c \<noteq> CHR ''='') s \<noteq> ''python'')
     [YStr ''pip'', YStr ''numpy=1.21''] \<and>
   fst (set_python
          (example_host 0 (YMap [(YStr ''dependencies'', YSeq [YStr ''pip'', YStr ''numpy=1.21''])]))
          (Path ''/r/environment.py-3.8.yml'') ''3.8'' fresh_world)
   = Inl ValueError \<and>
   files (snd (set_python
          (example_host 0 (YMap [(YStr ''dependencies'', YSeq [YStr ''pip'', YStr ''numpy=1.21''])]))
          (Path ''/r/environment.py-3.8.yml'') ''3.8'' fresh_world))
   = files fresh_world"
proof -
  let ?kvs = "[(YStr ''dependencies'', YSeq [YStr ''pip'', YStr ''numpy=1.21''])]"
  let ?h = "example_host 0 (YMap ?kvs)"
  let ?p = "Path ''/r/environment.py-3.8.yml''"
  have a1: "\<not> not_autogenerated fresh_world (str_path ?p)"
    by (simp add: model_defs)
  have a2: "files fresh_world (str_path (ENV_FILE ?h))
              = Some ''dependencies: [pip, python=3.7, numpy]''"
    by (simp add: model_defs)
  have a3: "yaml_load ?h ''dependencies: [pip, python=3.7, numpy]'' = Some (YMap ?kvs)"
    by (simp add: model_defs)
  have a4: "map_of ?kvs (YStr ''dependencies'') = Some (YSeq [YStr ''pip'', YStr ''numpy=1.21''])"
    by simp
  have a5: "list_all (\<lambda>d. \<exists>s. d = YStr s \<and> takeWhile (\<lambda>c. c \<noteq> CHR ''='') s \<noteq> ''python'')
              [YStr ''pip'', YStr ''numpy=1.21'']"
    by simp
  from set_python_value_error [OF a1 a2 a3 a4, of "''3.8''"] a5
  have v: "fst (set_python ?h ?p ''3.8'' fresh_world) = Inl ValueError"
    and u: "\<forall>e. fst (set_python ?h ?p ''3.8'' fresh_world) = Inl e \<longrightarrow>
               files (snd (set_python ?h ?p ''3.8'' fresh_world)) = files fresh_world"
    by simp_all
  have k: "files (snd (set_python ?h ?p ''3.8'' fresh_world)) = files fresh_world"
    by (rule u [rule_format, OF v])
  show ?thesis
    by (intro conjI) (rule a1, rule a5, rule v, rule k)
qed

text \<open>
  The counterexample to C4 as written: the only entry of the list is the mapping
  \<open>pip: [nbconvert]\<close>, so no entry has the prefix \<open>python\<close>, and the call ends in
  AttributeError, not ValueError.
\<close>

theorem value_error_iff_no_python_counterexample:
  "\<not> list_ex (\<lambda>d. case d of YStr s \<Rightarrow> takeWhile (\<lambda>c. c \<noteq> CHR ''='') s = ''python'' | _ \<Rightarrow> False)
        [YMap [(YStr ''pip'', YSeq [YStr ''nbconvert''])]] \<and>
   set_python
     (example_host 0 (YMap [(YStr ''dependencies'',
                             YSeq [YMap [(YStr ''pip'', YSeq [YStr ''nbconvert''])]])]))
     (Path ''/r/environment.py-3.8.yml'') ''3.8'' fresh_world
   = (Inl AttributeError,
      emit (Printed ''Regenerating /r/environment.py-3.8.yml from /r/environment.yml'') fresh_world)"
  by (simp add: model_defs)

subsection \<open>C5: what is written starts with the marker\<close>

text \<open>
  Claim C5: every output file that \<open>freeze\<close> or \<open>set_python\<close> writes begins with a
  line that holds \<open>GENERATED\<close>, so it may be overwritten later.

  That holds for every call that returns (\<open>regenerated_is_stamped\<close>,
  \<open>frozen_is_stamped\<close>, \<open>stamped_has_marker\<close>). But \<open>freeze\<close> opens the target
  for writing (line 71) before it builds the first line from \<open>env_file.relative_to(HERE)\<close>
  (line 73): for an \<open>env_file\<close> that does not lie under \<open>HERE\<close>, such as the relative
  \<open>environment.yml\<close> of the docstring, the call ends in ValueError and leaves the target
  empty, and an empty target has no marker: the next run refuses to overwrite it.
\<close>

theorem freeze_leaves_unmarked_file:
  "files fresh_world ''/r/environment-linux-64.lock'' = None \<and>
   fst (freeze (example_host 0 example_doc) (Path ''environment.yml'')
          (Path ''/r/environment-linux-64.lock'') ''linux-64'' fresh_world)
   = Inl ValueError \<and>
   files (snd (freeze (example_host 0 example_doc) (Path ''environment.yml'')
                 (Path ''/r/environment-linux-64.lock'') ''linux-64'' fresh_world))
     ''/r/environment-linux-64.lock''
   = Some '''' \<and>
   not_autogenerated
     (snd (freeze (example_host 0 example_doc) (Path ''environment.yml'')
             (Path ''/r/environment-linux-64.lock'') ''linux-64'' fresh_world))
     ''/r/environment-linux-64.lock''"
  by (simp add: model_defs)

subsection \<open>C6: the frozen file\<close>

text \<open>
  Claim C6, as amended: when \<open>freeze\<close> goes past its guard and returns, conda-lock was
  run once with the filename template \<open>frozen_dest.{platform}\<close> and exited with status
  zero, and the target holds the line \<open># AUTO GENERATED FROM\<close> the environment file
  (relative to \<open>HERE\<close>) \<open>, DO NOT MANUALLY MODIFY\<close>, then the line \<open># Frozen on\<close>
  with the clock reading, then the text of the temporary file that the template names,
  as \<open>read\<close> gives it in text mode: unchanged when it holds no carriage return, and with
  every line end as one line feed otherwise. The temporary file is gone afterwards.
  The claim as written promises the temporary file's content unchanged, for every
  run that passes the guard.

  The temporary file is taken to be another file than the target.
\<close>

theorem freeze_writes_stamped_lock:
  assumes "\<not> not_autogenerated w (str_path (joinpath (HERE h) frozen_file))"
    and "fst (freeze h env_file frozen_file platform w) = Inr ()"
    and "str_format ''platform'' platform
           (str_path (joinpath (HERE h) frozen_file) @ ''.{platform}'') = Inr t"
    and "str_path (Path t) \<noteq> str_path (joinpath (HERE h) frozen_file)"
    and "conda_lock h
           [''conda-lock'', ''--mamba'', ''--kind=explicit'',
            ''--platform='' @ platform,
            ''--filename-template='' @ str_path (joinpath (HERE h) frozen_file) @ ''.{platform}'',
            ''--file='' @ str_path env_file]
           (files w) = (st, fs)"
  shows "\<exists>rel body.
           st = 0 \<and>
           relative_to env_file (HERE h) = Inr rel \<and>
           fs (str_path (Path t)) = Some body \<and>
           files (snd (freeze h env_file frozen_file platform w))
             (str_path (joinpath (HERE h) frozen_file))
           = Some (''# AUTO GENERATED FROM '' @ str_path rel @ '', DO NOT MANUALLY MODIFY''
                   @ [CHR 0x0A] @ ''# Frozen on '' @ utcnow h (readings w) @ [CHR 0x0A]
                   @ read_text body) \<and>
           (CHR 0x0D \<notin> set body \<longrightarrow> read_text body = body) \<and>
           files (snd (freeze h env_file frozen_file platform w)) (str_path (Path t)) = None \<and>
           calls (trace (snd (freeze h env_file frozen_file platform w))) =
             calls (trace w) @
               [[''conda-lock'', ''--mamba'', ''--kind=explicit'',
                 ''--platform='' @ platform,
                 ''--filename-template='' @ str_path (joinpath (HERE h) frozen_file)
                   @ ''.{platform}'',
                 ''--file='' @ str_path env_file]]"
proof -
  from assms(1) have eq: "freeze h env_file frozen_file platform w
                            = freeze_run h env_file frozen_file platform w"
    by (rule freeze_proceed)
  with assms(2) have ok: "fst (freeze_run h env_file frozen_file platform w) = Inr ()"
    by simp
  from assms(3) have tmp: "frozen_tempfile (joinpath (HERE h) frozen_file) platform = Inr (Path t)"
    by (simp add: frozen_tempfile_def)
  from assms(5) have tool:
    "conda_lock h (conda_lock_argv env_file (joinpath (HERE h) frozen_file) platform) (files w)
       = (st, fs)"
    by (simp add: conda_lock_argv_def)
  from freeze_run_Inr [OF ok tool] tmp assms(4) obtain rel body where
    r: "st = 0" "relative_to env_file (HERE h) = Inr rel" "fs (str_path (Path t)) = Some body"
       "files (snd (freeze_run h env_file frozen_file platform w)) =
          (fs(str_path (joinpath (HERE h) frozen_file) \<mapsto>
               ''# AUTO GENERATED FROM '' @ str_path rel @ '', DO NOT MANUALLY MODIFY''
               @ [CHR 0x0A] @ ''# Frozen on '' @ utcnow h (readings w) @ [CHR 0x0A]
               @ read_text body))
          (str_path (Path t) := None)"
       "trace (snd (freeze_run h env_file frozen_file platform w)) =
          trace w @
            [Printed (''Freezing '' @ str_path env_file @ '' -> '' @ str_path frozen_file),
             Called (conda_lock_argv env_file (joinpath (HERE h) frozen_file) platform)]"
    by auto
  have plain: "CHR 0x0D \<notin> set body \<longrightarrow> read_text body = body"
    by (simp add: read_text_plain)
  from r(4) assms(4) have dest:
    "files (snd (freeze h env_file frozen_file platform w))
       (str_path (joinpath (HERE h) frozen_file))
     = Some (''# AUTO GENERATED FROM '' @ str_path rel @ '', DO NOT MANUALLY MODIFY''
             @ [CHR 0x0A] @ ''# Frozen on '' @ utcnow h (readings w) @ [CHR 0x0A]
             @ read_text body)"
    unfolding eq by simp
  from r(4) have gone:
    "files (snd (freeze h env_file frozen_file platform w)) (str_path (Path t)) = None"
    unfolding eq by simp
  from r(5) have called:
    "calls (trace (snd (freeze h env_file frozen_file platform w))) =
       calls (trace w) @
         [[''conda-lock'', ''--mamba'', ''--kind=explicit'',
           ''--platform='' @ platform,
           ''--filename-template='' @ str_path (joinpath (HERE h) frozen_file) @ ''.{platform}'',
           ''--file='' @ str_path env_file]]"
    unfolding eq by (simp add: calls_append conda_lock_argv_def)
  from r(1,2,3) dest plain gone called show ?thesis
    by blast
qed

text \<open>
  A witness of C6: freezing \<open>/r/environment.py-3.7.yml\<close> for \<open>linux-64\<close> with a tool
  that follows the template.
\<close>

theorem freeze_writes_stamped_lock_witness:
  "\<not> not_autogenerated fresh_world ''/r/environment.py-3.7-linux-64.lock'' \<and>
   fst (freeze (template_host (''@EXPLICIT'' @ [CHR 0x0A])) (Path ''/r/environment.py-3.7.yml'')
          (Path ''/r/environment.py-3.7-linux-64.lock'') ''linux-64'' fresh_world) = Inr () \<and>
   snd (conda_lock (template_host (''@EXPLICIT'' @ [CHR 0x0A]))
          [''conda-lock'', ''--mamba'', ''--kind=explicit'', ''--platform=linux-64'',
           ''--filename-template=/r/environment.py-3.7-linux-64.lock.{platform}'',
           ''--file=/r/environment.py-3.7.yml'']
          (files fresh_world))
     ''/r/environment.py-3.7-linux-64.lock.linux-64''
   = Some (''@EXPLICIT'' @ [CHR 0x0A]) \<and>
   files (snd (freeze (template_host (''@EXPLICIT'' @ [CHR 0x0A]))
                 (Path ''/r/environment.py-3.7.yml'')
                 (Path ''/r/environment.py-3.7-linux-64.lock'') ''linux-64'' fresh_world))
     ''/r/environment.py-3.7-linux-64.lock''
   = Some (''# AUTO GENERATED FROM environment.py-3.7.yml, DO NOT MANUALLY MODIFY'' @ [CHR 0x0A]
           @ ''# Frozen on 2021-01-01 00:00:00 UTC'' @ [CHR 0x0A] @ ''@EXPLICIT'' @ [CHR 0x0A]) \<and>
   files (snd (freeze (template_host (''@EXPLICIT'' @ [CHR 0x0A]))
                 (Path ''/r/environment.py-3.7.yml'')
                 (Path ''/r/environment.py-3.7-linux-64.lock'') ''linux-64'' fresh_world))
     ''/r/environment.py-3.7-linux-64.lock.linux-64''
   = None"
proof -
  let ?h = "template_host (''@EXPLICIT'' @ [CHR 0x0A])"
  let ?env = "Path ''/r/environment.py-3.7.yml''"
  let ?lock = "Path ''/r/environment.py-3.7-linux-64.lock''"
  let ?argv = "[''conda-lock'', ''--mamba'', ''--kind=explicit'', ''--platform=linux-64'',
                ''--filename-template=/r/environment.py-3.7-linux-64.lock.{platform}'',
                ''--file=/r/environment.py-3.7.yml'']"
  let ?fs = "(files fresh_world)
               (''/r/environment.py-3.7-linux-64.lock.linux-64'' \<mapsto> ''@EXPLICIT'' @ [CHR 0x0A])"
  have d: "str_path (joinpath (HERE ?h) ?lock) = ''/r/environment.py-3.7-linux-64.lock''"
    and e: "str_path ?env = ''/r/environment.py-3.7.yml''"
    and t: "str_path (Path ''/r/environment.py-3.7-linux-64.lock.linux-64'')
              = ''/r/environment.py-3.7-linux-64.lock.linux-64''"
    by (simp_all add: model_defs template_defs)
  have a1: "\<not> not_autogenerated fresh_world (str_path (joinpath (HERE ?h) ?lock))"
    by (simp add: model_defs template_defs)
  have a2: "fst (freeze ?h ?env ?lock ''linux-64'' fresh_world) = Inr ()"
    by (simp add: model_defs template_defs)
  have a3: "str_format ''platform'' ''linux-64''
              (str_path (joinpath (HERE ?h) ?lock) @ ''.{platform}'')
            = Inr ''/r/environment.py-3.7-linux-64.lock.linux-64''"
    by (simp add: model_defs template_defs)
  have a4: "str_path (Path ''/r/environment.py-3.7-linux-64.lock.linux-64'')
              \<noteq> str_path (joinpath (HERE ?h) ?lock)"
    by (simp add: model_defs template_defs)
  have tool: "conda_lock ?h ?argv (files fresh_world) = (0, ?fs)"
    by (simp add: model_defs template_defs)
  have a5: "conda_lock ?h
              [''conda-lock'', ''--mamba'', ''--kind=explicit'', ''--platform='' @ ''linux-64'',
               ''--filename-template='' @ str_path (joinpath (HERE ?h) ?lock) @ ''.{platform}'',
               ''--file='' @ str_path ?env]
              (files fresh_world) = (0, ?fs)"
    unfolding d e using tool by simp
  have r: "relative_to ?env (HERE ?h) = Inr \<lparr> anchor = [], names = [''environment.py-3.7.yml''] \<rparr>"
    by (simp add: model_defs template_defs)
  have u: "utcnow ?h (readings fresh_world) = ''2021-01-01 00:00:00 UTC''"
    by (simp add: model_defs template_defs)
  from freeze_writes_stamped_lock [OF a1 a2 a3 a4 a5] obtain rel body where
    c: "relative_to ?env (HERE ?h) = Inr rel"
       "?fs (str_path (Path ''/r/environment.py-3.7-linux-64.lock.linux-64'')) = Some body"
       "files (snd (freeze ?h ?env ?lock ''linux-64'' fresh_world))
          (str_path (joinpath (HERE ?h) ?lock))
        = Some (''# AUTO GENERATED FROM '' @ str_path rel @ '', DO NOT MANUALLY MODIFY''
                @ [CHR 0x0A] @ ''# Frozen on '' @ utcnow ?h (readings fresh_world)
                @ [CHR 0x0A] @ read_text body)"
       "CHR 0x0D \<notin> set body \<longrightarrow> read_text body = body"
       "files (snd (freeze ?h ?env ?lock ''linux-64'' fresh_world))
          (str_path (Path ''/r/environment.py-3.7-linux-64.lock.linux-64'')) = None"
    by blast
  from c(1) r have "rel = \<lparr> anchor = [], names = [''environment.py-3.7.yml''] \<rparr>"
    by simp
  then have rel: "str_path rel = ''environment.py-3.7.yml''"
    by (simp add: str_path_def)
  from c(2) have body: "body = ''@EXPLICIT'' @ [CHR 0x0A]"
    unfolding t by simp
  from c(4) have same: "read_text body = body"
    unfolding body by simp
  have k0: "\<not> not_autogenerated fresh_world ''/r/environment.py-3.7-linux-64.lock''"
    using a1 unfolding d .
  have k1: "snd (conda_lock ?h ?argv (files fresh_world))
              ''/r/environment.py-3.7-linux-64.lock.linux-64''
            = Some (''@EXPLICIT'' @ [CHR 0x0A])"
    unfolding tool by simp
  have k2: "files (snd (freeze ?h ?env ?lock ''linux-64'' fresh_world))
              ''/r/environment.py-3.7-linux-64.lock''
            = Some (''# AUTO GENERATED FROM environment.py-3.7.yml, DO NOT MANUALLY MODIFY''
                    @ [CHR 0x0A] @ ''# Frozen on 2021-01-01 00:00:00 UTC'' @ [CHR 0x0A]
                    @ ''@EXPLICIT'' @ [CHR 0x0A])"
    using c(3) unfolding d rel u same body by simp
  have k3: "files (snd (freeze ?h ?env ?lock ''linux-64'' fresh_world))
              ''/r/environment.py-3.7-linux-64.lock.linux-64'' = None"
    using c(5) unfolding t .
  show ?thesis
    by (intro conjI) (rule k0, rule a2, rule k1, rule k2, rule k3)
qed

text \<open>
  The counterexample to C6 as written. The tool leaves \<open>@EXPLICIT\<close> with a carriage
  return and a line feed in the temporary file, and the target ends in \<open>@EXPLICIT\<close>
  with a line feed alone (lines 76 and 77 read and write text). And a run that passes the
  guard with a conda-lock that exits with status 1 leaves no target at all.
\<close>

theorem temporary_file_unchanged_counterexample:
  "snd (conda_lock (template_host (''@EXPLICIT'' @ [CHR 0x0D, CHR 0x0A]))
          [''conda-lock'', ''--mamba'', ''--kind=explicit'', ''--platform=linux-64'',
           ''--filename-template=/r/environment.py-3.7-linux-64.lock.{platform}'',
           ''--file=/r/environment.py-3.7.yml'']
          (files fresh_world))
     ''/r/environment.py-3.7-linux-64.lock.linux-64''
   = Some (''@EXPLICIT'' @ [CHR 0x0D, CHR 0x0A]) \<and>
   freeze (template_host (''@EXPLICIT'' @ [CHR 0x0D, CHR 0x0A]))
     (Path ''/r/environment.py-3.7.yml'') (Path ''/r/environment.py-3.7-linux-64.lock'')
     ''linux-64'' fresh_world
   = (Inr (),
      \<lparr> files = [''/r/environment.yml'' \<mapsto> ''dependencies: [pip, python=3.7, numpy]'',
                  ''/r/environment.py-3.7-linux-64.lock'' \<mapsto>
                    ''# AUTO GENERATED FROM environment.py-3.7.yml, DO NOT MANUALLY MODIFY''
                    @ [CHR 0x0A] @ ''# Frozen on 2021-01-01 00:00:00 UTC'' @ [CHR 0x0A]
                    @ ''@EXPLICIT'' @ [CHR 0x0A]],
        trace = [Printed ''Freezing /r/environment.py-3.7.yml -> /r/environment.py-3.7-linux-64.lock'',
                 Called [''conda-lock'', ''--mamba'', ''--kind=explicit'', ''--platform=linux-64'',
                         ''--filename-template=/r/environment.py-3.7-linux-64.lock.{platform}'',
                         ''--file=/r/environment.py-3.7.yml'']],
        readings = 1 \<rparr>) \<and>
   \<not> not_autogenerated fresh_world ''/r/environment.py-3.7-linux-64.lock'' \<and>
   fst (freeze (example_host 1 example_doc) (Path ''/r/environment.py-3.7.yml'')
          (Path ''/r/environment.py-3.7-linux-64.lock'') ''linux-64'' fresh_world)
   = Inl (CalledProcessError 1) \<and>
   files (snd (freeze (example_host 1 example_doc) (Path ''/r/environment.py-3.7.yml'')
                 (Path ''/r/environment.py-3.7-linux-64.lock'') ''linux-64'' fresh_world))
     ''/r/environment.py-3.7-linux-64.lock''
   = None"
  by (simp add: model_defs template_defs fun_eq_iff)

subsection \<open>C7: a failing conda-lock\<close>

text \<open>
  Claim C7: when conda-lock is run and exits with a status other than zero, \<open>freeze\<close>
  ends in CalledProcessError with that status and writes nothing itself: the files are
  exactly those conda-lock left, so the target holds what it held before unless
  conda-lock touched it.
\<close>

theorem freeze_propagates_tool_failure:
  assumes "\<not> not_autogenerated w (str_path (joinpath (HERE h) frozen_file))"
    and "frozen_tempfile (joinpath (HERE h) frozen_file) platform = Inr tmp"
    and "conda_lock h (conda_lock_argv env_file (joinpath (HERE h) frozen_file) platform) (files w)
           = (st, fs)"
    and "st \<noteq> 0"
  shows "fst (freeze h env_file frozen_file platform w) = Inl (CalledProcessError st) \<and>
         files (snd (freeze h env_file frozen_file platform w)) = fs"
  using freeze_proceed [OF assms(1), of env_file platform] freeze_run_tool_fails [OF assms(2,3,4)]
  by simp

text \<open>A witness of C7: a conda-lock that exits with status 1.\<close>

theorem freeze_propagates_tool_failure_witness:
  "\<not> not_autogenerated fresh_world ''/r/environment.py-3.7-linux-64.lock'' \<and>
   fst (conda_lock (example_host 1 example_doc)
          (conda_lock_argv (Path ''/r/environment.py-3.7.yml'')
             (Path ''/r/environment.py-3.7-linux-64.lock'') ''linux-64'')
          (files fresh_world)) = 1 \<and>
   fst (freeze (example_host 1 example_doc) (Path ''/r/environment.py-3.7.yml'')
          (Path ''/r/environment.py-3.7-linux-64.lock'') ''linux-64'' fresh_world)
   = Inl (CalledProcessError 1) \<and>
   files (snd (freeze (example_host 1 example_doc) (Path ''/r/environment.py-3.7.yml'')
                 (Path ''/r/environment.py-3.7-linux-64.lock'') ''linux-64'' fresh_world))
   = files fresh_world"
proof -
  let ?h = "example_host 1 example_doc"
  let ?env = "Path ''/r/environment.py-3.7.yml''"
  let ?lock = "Path ''/r/environment.py-3.7-linux-64.lock''"
  let ?tmp = "Path ''/r/environment.py-3.7-linux-64.lock.linux-64''"
  have d: "str_path (joinpath (HERE ?h) ?lock) = ''/r/environment.py-3.7-linux-64.lock''"
    by (simp add: model_defs)
  have a1: "\<not> not_autogenerated fresh_world (str_path (joinpath (HERE ?h) ?lock))"
    by (simp add: model_defs)
  have a2: "frozen_tempfile (joinpath (HERE ?h) ?lock) ''linux-64'' = Inr ?tmp"
    by (simp add: model_defs)
  have a3: "conda_lock ?h (conda_lock_argv ?env (joinpath (HERE ?h) ?lock) ''linux-64'')
              (files fresh_world) = (1, files fresh_world)"
    by (simp add: model_defs)
  have a4: "(1::int) \<noteq> 0"
    by simp
  have k1: "fst (conda_lock ?h (conda_lock_argv ?env ?lock ''linux-64'') (files fresh_world)) = 1"
    by (simp add: model_defs)
  from a1 d have k0: "\<not> not_autogenerated fresh_world ''/r/environment.py-3.7-linux-64.lock''"
    by simp
  note k = freeze_propagates_tool_failure [OF a1 a2 a3 a4]
  show ?thesis
    by (intro conjI) (rule k0, rule k1, rule k [THEN conjunct1], rule k [THEN conjunct2])
qed

subsection \<open>C8: the positional arguments\<close>

text \<open>
  Claim C8: the command line takes positional arguments for the Python versions and for
  the platforms, each with its defaults, so that a user can give both.

  The defaults are as claimed. But both positionals are declared with \<open>nargs="*"\<close>
  (lines 116 to 127), and argparse gives every positional string to the first: the
  help text of \<open>platform\<close> promises platforms to freeze, and no command line sets them
  (\<open>platform_always_default\<close>). Here \<open>linux-aarch64\<close> is taken for a Python version.
\<close>

theorem platform_argument_unreachable:
  "parse_args [''3.8'', ''linux-aarch64'']
   = \<lparr> ns_py = [''3.8'', ''linux-aarch64''], ns_platform = [''linux-64'', ''linux-aarch64''] \<rparr>"
  by (simp add: parse_args_def)

subsection \<open>C9: a target that does not exist\<close>

text \<open>
  Claim C9, as amended: if the target does not exist, \<open>set_python\<close> and \<open>freeze\<close> take
  the regeneration path for every input (the call is the regeneration of lines 91 to 106,
  or 51 to 79), and the target is created, stamped, whenever that regeneration returns.
  The claim as written promises the file for every input, also where the regeneration
  ends in an error. The temporary file of \<open>freeze\<close> is taken to be another file than the
  target.
\<close>

theorem missing_target_regenerated:
  assumes "files w (str_path py_env_file) = None"
    and "files w (str_path (joinpath (HERE h) frozen_file)) = None"
    and "frozen_tempfile (joinpath (HERE h) frozen_file) platform = Inr tmp"
    and "str_path tmp \<noteq> str_path (joinpath (HERE h) frozen_file)"
  shows "set_python h py_env_file py w = set_python_regenerate h py_env_file py w \<and>
         (fst (set_python h py_env_file py w) = Inr () \<longrightarrow>
            (\<exists>new. files (snd (set_python h py_env_file py w)) (str_path py_env_file) = Some new \<and>
                   startswith new ''# AUTO GENERATED FROM '')) \<and>
         freeze h env_file frozen_file platform w = freeze_run h env_file frozen_file platform w \<and>
         (fst (freeze h env_file frozen_file platform w) = Inr () \<longrightarrow>
            (\<exists>new. files (snd (freeze h env_file frozen_file platform w))
                      (str_path (joinpath (HERE h) frozen_file)) = Some new \<and>
                   startswith new ''# AUTO GENERATED FROM ''))"
proof -
  from assms(1) have "\<not> not_autogenerated w (str_path py_env_file)"
    by (simp add: not_autogenerated_def)
  then have e1: "set_python h py_env_file py w = set_python_regenerate h py_env_file py w"
    by (rule set_python_proceed)
  from assms(2) have "\<not> not_autogenerated w (str_path (joinpath (HERE h) frozen_file))"
    by (simp add: not_autogenerated_def)
  then have e2: "freeze h env_file frozen_file platform w
                   = freeze_run h env_file frozen_file platform w"
    by (rule freeze_proceed)
  from e1 e2 regenerated_is_stamped [of h py_env_file py w]
    frozen_is_stamped [OF _ assms(3,4), of env_file w]
  show ?thesis by simp
qed

text \<open>A witness of C9: both targets are missing and both are created.\<close>

theorem missing_target_regenerated_witness:
  "files fresh_world (str_path (Path ''/r/environment.py-3.7.yml'')) = None \<and>
   files fresh_world ''/r/environment.py-3.7-linux-64.lock'' = None \<and>
   fst (set_python (example_host 0 example_doc) (Path ''/r/environment.py-3.7.yml'') ''3.7''
          fresh_world) = Inr () \<and>
   (\<exists>new. files (snd (set_python (example_host 0 example_doc) (Path ''/r/environment.py-3.7.yml'')
                        ''3.7'' fresh_world))
             (str_path (Path ''/r/environment.py-3.7.yml'')) = Some new \<and>
          startswith new ''# AUTO GENERATED FROM '') \<and>
   fst (freeze (example_host 0 example_doc) (Path ''/r/environment.py-3.7.yml'')
          (Path ''/r/environment.py-3.7-linux-64.lock'') ''linux-64'' fresh_world) = Inr () \<and>
   (\<exists>new. files (snd (freeze (example_host 0 example_doc) (Path ''/r/environment.py-3.7.yml'')
                        (Path ''/r/environment.py-3.7-linux-64.lock'') ''linux-64'' fresh_world))
             ''/r/environment.py-3.7-linux-64.lock'' = Some new \<and>
          startswith new ''# AUTO GENERATED FROM '')"
proof -
  let ?h = "example_host 0 example_doc"
  let ?env = "Path ''/r/environment.py-3.7.yml''"
  let ?lock = "Path ''/r/environment.py-3.7-linux-64.lock''"
  let ?tmp = "Path ''/r/environment.py-3.7-linux-64.lock.linux-64''"
  have d: "str_path (joinpath (HERE ?h) ?lock) = ''/r/environment.py-3.7-linux-64.lock''"
    by (simp add: model_defs)
  have a1: "files fresh_world (str_path ?env) = None"
    by (simp add: model_defs)
  have a2: "files fresh_world (str_path (joinpath (HERE ?h) ?lock)) = None"
    by (simp add: model_defs)
  have a3: "frozen_tempfile (joinpath (HERE ?h) ?lock) ''linux-64'' = Inr ?tmp"
    by (simp add: model_defs)
  have a4: "str_path ?tmp \<noteq> str_path (joinpath (HERE ?h) ?lock)"
    by (simp add: model_defs)
  have s1: "fst (set_python ?h ?env ''3.7'' fresh_world) = Inr ()"
    by (simp add: model_defs)
  have s2: "fst (freeze ?h ?env ?lock ''linux-64'' fresh_world) = Inr ()"
    by (simp add: model_defs)
  note k = missing_target_regenerated [OF a1 a2 a3 a4, of "''3.7''" ?env]
  have k1:
    "\<exists>new. files (snd (set_python ?h ?env ''3.7'' fresh_world)) (str_path ?env) = Some new \<and>
           startswith new ''# AUTO GENERATED FROM ''"
    by (rule k [THEN conjunct2, THEN conjunct1, rule_format, OF s1])
  have k2:
    "\<exists>new. files (snd (freeze ?h ?env ?lock ''linux-64'' fresh_world))
             ''/r/environment.py-3.7-linux-64.lock'' = Some new \<and>
           startswith new ''# AUTO GENERATED FROM ''"
    using k [THEN conjunct2, THEN conjunct2, THEN conjunct2, rule_format, OF s2]
    unfolding d .
  from a2 d have k0: "files fresh_world ''/r/environment.py-3.7-linux-64.lock'' = None"
    by simp
  show ?thesis
    by (intro conjI) (rule a1, rule k0, rule s1, rule k1, rule s2, rule k2)
qed

text \<open>
  The counterexample to C9 as written: the lock file is missing and conda-lock exits with
  status 1, and the environment file is missing and the dependencies hold no python
  entry; neither target exists afterwards.
\<close>

theorem missing_target_created_counterexample:
  "files fresh_world ''/r/environment.py-3.7-linux-64.lock'' = None \<and>
   fst (freeze (example_host 1 example_doc) (Path ''/r/environment.py-3.7.yml'')
          (Path ''/r/environment.py-3.7-linux-64.lock'') ''linux-64'' fresh_world)
   = Inl (CalledProcessError 1) \<and>
   files (snd (freeze (example_host 1 example_doc) (Path ''/r/environment.py-3.7.yml'')
                 (Path ''/r/environment.py-3.7-linux-64.lock'') ''linux-64'' fresh_world))
     ''/r/environment.py-3.7-linux-64.lock''
   = None \<and>
   files fresh_world ''/r/environment.py-3.8.yml'' = None \<and>
   fst (set_python (example_host 0 (YMap [(YStr ''dependencies'', YSeq [YStr ''pip''])]))
          (Path ''/r/environment.py-3.8.yml'') ''3.8'' fresh_world)
   = Inl ValueError \<and>
   files (snd (set_python (example_host 0 (YMap [(YStr ''dependencies'', YSeq [YStr ''pip''])]))
                 (Path ''/r/environment.py-3.8.yml'') ''3.8'' fresh_world))
     ''/r/environment.py-3.8.yml''
   = None"
  by (simp add: model_defs)

subsection \<open>C10: the copy for the default Python version\<close>



end
